theory Spec2Isabelle
  imports Main "HOL-Library.Word"
begin

section \<open>The scale-set listener's bootstrap: \<open>cmd/githubrunnerscalesetlistener/main.go\<close>\<close>

text \<open>
  The file embeds \<open>main\<close>, \<open>run\<close>, \<open>validateConfig\<close> and \<open>newActionsClientFromConfig\<close>.
  Go's \<open>int64\<close> is a 64-bit word; Go's \<open>int\<close> is taken at its width on the 64-bit targets the
  listener is built for. The code only compares these integers, always as signed values
  (\<open><s\<close>, \<open>sint\<close>), and converts one of them to a string; it does no arithmetic on them.
  Go strings are byte strings, as \<open>string\<close> is here.
\<close>

subsection \<open>Data\<close>

type_synonym int64 = "64 word"
type_synonym go_int = "64 word"

text \<open>\<open>actions.GitHubAppAuth\<close> and \<open>actions.ActionsAuth\<close>, with the fields \<open>run\<close> sets.
  A nil \<open>AppCreds\<close> pointer is \<open>None\<close>.\<close>

record GitHubAppAuth =
  AppID :: int64
  AppInstallationID :: int64
  AppPrivateKey :: string

record ActionsAuth =
  AppCreds :: "GitHubAppAuth option"
  Token :: string

text \<open>\<open>ScaleSettings\<close>, with the fields \<open>run\<close> sets.\<close>

record ScaleSettings =
  Namespace :: string
  ResourceName :: string
  MaxRunners :: go_int
  MinRunners :: go_int

text \<open>The configuration struct, filled from the environment. Declared after the records above,
  so that its field names are the unqualified ones.\<close>

record RunnerScaleSetListenerConfig =
  ConfigureUrl :: string
  AppID :: int64
  AppInstallationID :: int64
  AppPrivateKey :: string
  Token :: string
  EphemeralRunnerSetNamespace :: string
  EphemeralRunnerSetName :: string
  MaxRunners :: go_int
  MinRunners :: go_int
  RunnerScaleSetId :: go_int
  ServerRootCA :: string
  EnablePrometheusMetrics :: bool

text \<open>The sixteen collectors handed to \<open>prometheus.MustRegister\<close>, by their Go variables.\<close>

datatype Collector =
    githubRunnerScaleSetAvailableJobs
  | githubRunnerScaleSetAcquiredJobs
  | githubRunnerScaleSetAssignedJobs
  | githubRunnerScaleSetRunningJobs
  | githubRunnerScaleSetRegisteredRunners
  | githubRunnerScaleSetBusyRunners
  | githubRunnerScaleSetIdleRunners
  | githubRunnerScaleSetAcquireJobTotal
  | githubRunnerScaleSetDesiredEphemeralRunnerPods
  | githubRunnerScaleSetJobAvailableTotal
  | githubRunnerScaleSetJobAssignedTotal
  | githubRunnerScaleSetJobStartedTotal
  | githubRunnerScaleSetJobCompletedTotal
  | githubRunnerScaleSetJobQueueDurationSeconds
  | githubRunnerScaleSetJobStartDurationSeconds
  | githubRunnerScaleSetJobRunDurationSeconds

text \<open>
  Errors as values. The first six are the \<open>fmt.Errorf\<close> results of \<open>validateConfig\<close>, with the
  values their messages format; the next two are those of \<open>newActionsClientFromConfig\<close>; the
  next four are the wrapping errors of \<open>run\<close>. \<open>AlreadyRegisteredError\<close> is what
  \<open>MustRegister\<close> panics with, \<open>HttpHandlePanic\<close> what \<open>http.Handle\<close> panics with, for
  the pattern given. \<open>External\<close> is an error produced by a collaborator.
\<close>

datatype error =
    GitHubConfigUrlNotProvided
  | EphemeralRunnerSetMissing string string
  | RunnerScaleSetIdMissing go_int
  | MinRunnersGreaterThanMaxRunners go_int go_int
  | AuthCredentialMissing nat int64 int64 nat
  | BothAuthMethods nat int64 int64 nat
  | FailedToLoadSystemCertPool error
  | FailedToParseRootCertificate
  | FailedToCreateActionsClient error
  | FailedToCreateMessageListener error
  | FailedToCreateKubernetesManager error
  | FailedToStartMessageQueueListener error
  | AlreadyRegisteredError Collector
  | HttpHandlePanic string
  | External string

text \<open>\<open>logr.Logger\<close>: only the names given by \<open>WithName\<close> are kept.\<close>

datatype Logger = Logger (names: "string list")

definition WithName :: "Logger \<Rightarrow> string \<Rightarrow> Logger" where
  "WithName l n = Logger (names l @ [n])"

text \<open>\<open>http.Request\<close>, with the one field the proxy wrapper reads.\<close>

record Request =
  URL :: string

text \<open>\<open>actions.ClientOption\<close>: the four options this file builds. \<open>'p\<close> is the certificate
  pool.\<close>

datatype 'p ClientOption =
    WithLogger Logger
  | WithUserAgent string
  | WithRootCAs 'p
  | WithProxy "Request \<Rightarrow> error + string option"

text \<open>\<open>web.LandingConfig\<close> with the fields \<open>run\<close> sets; a link is its address and its text.\<close>

record LandingConfig =
  Name :: string
  Description :: string
  Version :: string
  Links :: "(string \<times> string) list"

text \<open>
  The \<open>Service\<close> struct: the fields that \<open>NewService\<close> receives and that the option callback of
  \<open>run\<close> assigns. \<open>prometheus.Labels\<close> is a \<open>map[string]string\<close>.
\<close>

record ('l, 'k) Service =
  listenerClient :: 'l
  manager :: 'k
  settings :: ScaleSettings
  logger :: Logger
  prometheusLabels :: "string \<rightharpoonup> string"

subsection \<open>What happens, in order\<close>

text \<open>
  The calls of \<open>main\<close> and \<open>run\<close> whose order the specification talks about, as events.
  \<open>ListenerClose\<close> and \<open>ContextStop\<close> are the two deferred calls of \<open>run\<close>;
  \<open>ServiceEntered\<close> is the service loop entering one of its states.
\<close>

datatype svc_state = Starting | Listening | Reconciling | Draining | Stopped

datatype event =
    Stderr error string
  | LogError error string
  | LogInfo string
  | RunCalled RunnerScaleSetListenerConfig
  | NotifyContext
  | NewAutoScalerClientCalled go_int
  | NewKubernetesManagerCalled
  | NewServiceCalled ScaleSettings
  | KingpinParse
  | MustRegisterCalled "Collector list"
  | HttpHandle string
  | MetricsServerSpawned
  | ServiceStartCalled
  | ServiceEntered svc_state
  | ListenerClose
  | ContextStop
  | OsExit nat

text \<open>How a call ends: it returns, the process exits (\<open>os.Exit\<close>), it panics, or it is still
  running when the observations end.\<close>

datatype 'a outcome = Returned 'a | Exited nat | Panicked error | Running

subsection \<open>The autoscaler service's loop\<close>

text \<open>
  Modelled from the spec: \<open>Service.Start\<close> (the autoscaler service is not under src/), after
  section 4.4: the states are Starting, Listening, Reconciling, Draining and Stopped;
  Listening and Reconciling alternate per received message; any state goes to Draining on the
  cancellation signal, then to Stopped once the in-flight step has completed; an
  authentication error at session creation is fatal; an unavailable service is retried; an
  expired session goes back through session creation. What the loop meets is a list of
  observations; when the list ends before the loop has returned, the loop is still running.
\<close>

datatype loop_obs =
    CancelSignal
  | SessionCreated
  | AuthError error
  | Unavailable
  | MessageReceived
  | NoMessage
  | SessionExpired

fun Service_step :: "svc_state \<Rightarrow> loop_obs \<Rightarrow> svc_state list \<times> error option option" where
  "Service_step st CancelSignal = ([Draining, Stopped], Some None)"
| "Service_step Starting SessionCreated = ([Listening], None)"
| "Service_step Starting (AuthError e) = ([], Some (Some e))"
| "Service_step Listening MessageReceived = ([Reconciling, Listening], None)"
| "Service_step Listening SessionExpired = ([Starting], None)"
| "Service_step st ob = ([], None)"

text \<open>The states entered, in order, and how the loop ends.\<close>

fun Service_loop :: "svc_state \<Rightarrow> loop_obs list \<Rightarrow> svc_state list \<times> error option outcome" where
  "Service_loop st [] = ([], Running)"
| "Service_loop st (ob # obs) =
     (case Service_step st ob of
        (sts, Some r) \<Rightarrow> (sts, Returned r)
      | (sts, None) \<Rightarrow>
          (case Service_loop (last (st # sts)) obs of (sts', r) \<Rightarrow> (sts @ sts', r)))"

definition Service_Start :: "('l, 'k) Service \<Rightarrow> loop_obs list \<Rightarrow> svc_state list \<times> error option outcome" where
  "Service_Start s obs = Service_loop Starting obs"

text \<open>
  Modelled from the spec: \<open>NewService\<close> (not under src/), after section 9: configuration is
  callback-style, construct then mutate. The service is built from the arguments, then each
  option callback is applied to it in turn.
\<close>

definition NewService ::
  "'l \<Rightarrow> 'k \<Rightarrow> ScaleSettings \<Rightarrow> (('l, 'k) Service \<Rightarrow> ('l, 'k) Service) list \<Rightarrow> ('l, 'k) Service" where
  "NewService client kubeManager st options =
     fold (\<lambda>option s. option s) options
       \<lparr>listenerClient = client, manager = kubeManager, settings = st, logger = Logger [],
        prometheusLabels = Map.empty\<rparr>"

subsection \<open>The collaborators\<close>

text \<open>
  What \<open>main.go\<close> calls and does not define, as parameters: the logger and the environment
  reader of \<open>main\<close>, the system certificate pool and its PEM parser, the proxy function read
  from the environment, the constructors of the Actions client, of the message listener and of
  the Kubernetes manager, the command-line parser (\<open>Some n\<close> when it ends the process with
  status \<open>n\<close>), the landing page constructor, the build and version strings, the
  \<open>web.telemetry-path\<close> flag, the patterns that the default serve mux holds when \<open>run\<close>
  starts, the descriptor under which each collector registers, and what the service loop
  meets. \<open>'p\<close>, \<open>'c\<close>, \<open>'l\<close> and \<open>'k\<close> are the certificate pool, the client,
  the listener and the manager.
\<close>

record ('p, 'c, 'l, 'k) Env =
  NewLogger :: "error + Logger"
  envconfig_Process :: "error + RunnerScaleSetListenerConfig"
  SystemCertPool :: "error + 'p"
  AppendCertsFromPEM :: "'p \<Rightarrow> string \<Rightarrow> 'p \<times> bool"
  FromEnvironment_ProxyFunc :: "string \<Rightarrow> error + string option"
  NewClient :: "string \<Rightarrow> ActionsAuth \<Rightarrow> 'p ClientOption list \<Rightarrow> error + 'c"
  NewAutoScalerClient :: "'c \<Rightarrow> Logger \<Rightarrow> go_int \<Rightarrow> error + 'l"
  NewKubernetesManager :: "Logger \<Rightarrow> error + 'k"
  kingpin_Parse :: "nat option"
  NewLandingPage :: "LandingConfig \<Rightarrow> error option"
  build_Version :: string
  version_Info :: string
  metricsPath :: string
  muxPatterns :: "string list"
  collectorDesc :: "Collector \<Rightarrow> string"
  observations :: "loop_obs list"

subsection \<open>\<open>validateConfig\<close>\<close>

definition validateConfig :: "RunnerScaleSetListenerConfig \<Rightarrow> error option" where
  "validateConfig config =
     (if length (ConfigureUrl config) = 0 then Some GitHubConfigUrlNotProvided
      else if length (EphemeralRunnerSetNamespace config) = 0
              \<or> length (EphemeralRunnerSetName config) = 0
        then Some (EphemeralRunnerSetMissing (EphemeralRunnerSetNamespace config)
                     (EphemeralRunnerSetName config))
      else if RunnerScaleSetId config = 0
        then Some (RunnerScaleSetIdMissing (RunnerScaleSetId config))
      else if MaxRunners config <s MinRunners config
        then Some (MinRunnersGreaterThanMaxRunners (MinRunners config) (MaxRunners config))
      else
        let hasToken = (length (Token config) > 0);
            hasPrivateKeyConfig = (0 <s AppID config \<and> AppPrivateKey config \<noteq> [])
        in if \<not> hasToken \<and> \<not> hasPrivateKeyConfig
             then Some (AuthCredentialMissing (length (Token config)) (AppID config)
                          (AppInstallationID config) (length (AppPrivateKey config)))
           else if hasToken \<and> hasPrivateKeyConfig
             then Some (BothAuthMethods (length (Token config)) (AppID config)
                          (AppInstallationID config) (length (AppPrivateKey config)))
           else None)"

subsection \<open>\<open>newActionsClientFromConfig\<close>\<close>

text \<open>The wrapper given to \<open>actions.WithProxy\<close>: it applies the proxy function to the request's
  URL.\<close>

definition proxyWrapper :: "(string \<Rightarrow> error + string option) \<Rightarrow> Request \<Rightarrow> error + string option" where
  "proxyWrapper proxyFunc req = proxyFunc (URL req)"

text \<open>\<open>Clone\<close> copies the pool, so the value is the same; \<open>AppendCertsFromPEM\<close> changes the
  copy in place and reports whether a certificate was parsed.\<close>

definition newActionsClientFromConfig ::
  "('p, 'c, 'l, 'k) Env \<Rightarrow> RunnerScaleSetListenerConfig \<Rightarrow> ActionsAuth \<Rightarrow> 'p ClientOption list
     \<Rightarrow> error + 'c" where
  "newActionsClientFromConfig env config creds options =
     (if ServerRootCA config \<noteq> [] then
        (case SystemCertPool env of
           Inl err \<Rightarrow> Inl (FailedToLoadSystemCertPool err)
         | Inr systemPool \<Rightarrow>
             (case AppendCertsFromPEM env systemPool (ServerRootCA config) of
                (pool, ok) \<Rightarrow>
                  if \<not> ok then Inl FailedToParseRootCertificate
                  else NewClient env (ConfigureUrl config) creds
                         (options @ [WithRootCAs pool]
                            @ [WithProxy (proxyWrapper (FromEnvironment_ProxyFunc env))])))
      else NewClient env (ConfigureUrl config) creds
             (options @ [WithProxy (proxyWrapper (FromEnvironment_ProxyFunc env))]))"

subsection \<open>Converting an integer to a string\<close>

text \<open>
  Go's conversion \<open>string(i)\<close> of an integer: the UTF-8 encoding of the code point \<open>i\<close>, and
  of U+FFFD when \<open>i\<close> is not a valid code point (negative, a surrogate, or above U+10FFFF).
\<close>

definition encoderune :: "int \<Rightarrow> string" where
  "encoderune r =
     (if r < 0 \<or> 1114111 < r \<or> (55296 \<le> r \<and> r \<le> 57343)
        then [char_of (239::int), char_of (191::int), char_of (189::int)]
      else if r < 128 then [char_of r]
      else if r < 2048 then [char_of (192 + r div 64), char_of (128 + r mod 64)]
      else if r < 65536
        then [char_of (224 + r div 4096), char_of (128 + (r div 64) mod 64),
              char_of (128 + r mod 64)]
      else [char_of (240 + r div 262144), char_of (128 + (r div 4096) mod 64),
            char_of (128 + (r div 64) mod 64), char_of (128 + r mod 64)])"

definition string_of_int :: "go_int \<Rightarrow> string" where
  "string_of_int i = encoderune (sint i)"

text \<open>
  The decimal representation of an integer (what \<open>strconv.Itoa\<close> returns), written after the
  specification's words "the decimal representation of RunnerScaleSetId", to compare
  \<open>string_of_int\<close> with.
\<close>

fun decimal_nat :: "nat \<Rightarrow> string" where
  "decimal_nat n =
     (if n < 10 then [char_of (48 + n)]
      else decimal_nat (n div 10) @ [char_of (48 + n mod 10)])"

declare decimal_nat.simps [simp del]

definition Itoa :: "go_int \<Rightarrow> string" where
  "Itoa i = (if sint i < 0 then CHR ''-'' # decimal_nat (nat (- sint i))
             else decimal_nat (nat (sint i)))"

subsection \<open>\<open>prometheus.MustRegister\<close>\<close>

text \<open>
  The registry is the list of the descriptors registered so far. \<open>Register\<close> refuses a
  collector whose descriptor is registered already; \<open>MustRegister\<close> registers the collectors
  in order and panics with the first error (\<open>Some\<close>), leaving registered what it had
  registered before. Only this duplicate check of the library is modelled.
\<close>

fun MustRegister :: "(Collector \<Rightarrow> string) \<Rightarrow> Collector list \<Rightarrow> string list \<Rightarrow> error option \<times> string list" where
  "MustRegister desc [] registry = (None, registry)"
| "MustRegister desc (c # cs) registry =
     (if desc c \<in> set registry then (Some (AlreadyRegisteredError c), registry)
      else MustRegister desc cs (registry @ [desc c]))"

definition scaleSetCollectors :: "Collector list" where
  "scaleSetCollectors =
     [githubRunnerScaleSetAvailableJobs,
      githubRunnerScaleSetAcquiredJobs,
      githubRunnerScaleSetAssignedJobs,
      githubRunnerScaleSetRunningJobs,
      githubRunnerScaleSetRegisteredRunners,
      githubRunnerScaleSetBusyRunners,
      githubRunnerScaleSetIdleRunners,
      githubRunnerScaleSetAcquireJobTotal,
      githubRunnerScaleSetDesiredEphemeralRunnerPods,
      githubRunnerScaleSetJobAvailableTotal,
      githubRunnerScaleSetJobAssignedTotal,
      githubRunnerScaleSetJobStartedTotal,
      githubRunnerScaleSetJobCompletedTotal,
      githubRunnerScaleSetJobQueueDurationSeconds,
      githubRunnerScaleSetJobStartDurationSeconds,
      githubRunnerScaleSetJobRunDurationSeconds]"

subsection \<open>\<open>run\<close>\<close>

text \<open>The credentials: the token when there is one, the app credentials otherwise.\<close>

definition run_creds :: "RunnerScaleSetListenerConfig \<Rightarrow> ActionsAuth" where
  "run_creds rc =
     (if Token rc \<noteq> [] then \<lparr>AppCreds = None, Token = Token rc\<rparr>
      else \<lparr>AppCreds = Some \<lparr>GitHubAppAuth.AppID = AppID rc,
                              GitHubAppAuth.AppInstallationID = AppInstallationID rc,
                              GitHubAppAuth.AppPrivateKey = AppPrivateKey rc\<rparr>,
            Token = []\<rparr>)"

definition run_scaleSettings :: "RunnerScaleSetListenerConfig \<Rightarrow> ScaleSettings" where
  "run_scaleSettings rc =
     \<lparr>Namespace = EphemeralRunnerSetNamespace rc,
      ResourceName = EphemeralRunnerSetName rc,
      ScaleSettings.MaxRunners = MaxRunners rc,
      ScaleSettings.MinRunners = MinRunners rc\<rparr>"

text \<open>The option callback given to \<open>NewService\<close>.\<close>

definition run_serviceOption ::
  "RunnerScaleSetListenerConfig \<Rightarrow> Logger \<Rightarrow> ('l, 'k) Service \<Rightarrow> ('l, 'k) Service" where
  "run_serviceOption rc lgr s =
     s\<lparr>logger := WithName lgr ''service'',
       prometheusLabels :=
         [''runner_scale_set_name'' \<mapsto> string_of_int (RunnerScaleSetId rc),
          ''runner_scale_set_config_url'' \<mapsto> ConfigureUrl rc,
          ''auto_scaling_runner_set_name'' \<mapsto> EphemeralRunnerSetName rc,
          ''auto_scaling_runner_set_namespace'' \<mapsto> EphemeralRunnerSetNamespace rc]\<rparr>"

text \<open>
  \<open>http.Handle\<close> on the default serve mux, which is the list of the patterns registered so
  far: it panics on the empty pattern and on a pattern that is registered already. The other
  checks the library makes on the syntax of a pattern are not modelled.
\<close>

definition http_Handle :: "string \<Rightarrow> string list \<Rightarrow> error option \<times> string list" where
  "http_Handle pattern mux =
     (if pattern = [] \<or> pattern \<in> set mux then (Some (HttpHandlePanic pattern), mux)
      else (None, mux @ [pattern]))"

text \<open>
  The block under \<open>if rc.EnablePrometheusMetrics\<close>: the command line is parsed (which may end
  the process), the collectors are registered (which may panic), the handler of the metrics
  path is installed (which may panic), a landing page that cannot be built ends the process
  with status 1, the landing page is installed under \<open>/\<close> (which may panic, as it does when
  the metrics path is \<open>/\<close> too), and the metrics server is started in a goroutine of its own.
\<close>

definition run_landingConfig :: "('p, 'c, 'l, 'k) Env \<Rightarrow> LandingConfig" where
  "run_landingConfig env =
     \<lparr>Name = ''Actions-Runner-Controller Exporter'',
      Description = ''Actions-Runner-Controller Exporter'',
      Version = version_Info env,
      Links = [(metricsPath env, ''Actions-Runner-Controller Metrics'')]\<rparr>"

definition run_metrics ::
  "('p, 'c, 'l, 'k) Env \<Rightarrow> string list \<Rightarrow> unit outcome \<times> string list \<times> event list" where
  "run_metrics env registry =
     (case kingpin_Parse env of
        Some n \<Rightarrow>
          (Exited n, registry, [LogInfo ''Starting prometheus exporter'', KingpinParse, OsExit n])
      | None \<Rightarrow>
          (case MustRegister (collectorDesc env) scaleSetCollectors registry of
             (Some e, registry') \<Rightarrow>
               (Panicked e, registry',
                [LogInfo ''Starting prometheus exporter'', KingpinParse,
                 MustRegisterCalled scaleSetCollectors])
           | (None, registry') \<Rightarrow>
          (case http_Handle (metricsPath env) (muxPatterns env) of
             (Some e, mux) \<Rightarrow>
               (Panicked e, registry',
                [LogInfo ''Starting prometheus exporter'', KingpinParse,
                 MustRegisterCalled scaleSetCollectors, HttpHandle (metricsPath env)])
           | (None, mux) \<Rightarrow>
          (case NewLandingPage env (run_landingConfig env) of
             Some err \<Rightarrow>
               (Exited 1, registry',
                [LogInfo ''Starting prometheus exporter'', KingpinParse,
                 MustRegisterCalled scaleSetCollectors, HttpHandle (metricsPath env),
                 LogError err ''err'', OsExit 1])
           | None \<Rightarrow>
          (case http_Handle ''/'' mux of
             (Some e, mux') \<Rightarrow>
               (Panicked e, registry',
                [LogInfo ''Starting prometheus exporter'', KingpinParse,
                 MustRegisterCalled scaleSetCollectors, HttpHandle (metricsPath env),
                 HttpHandle ''/''])
           | (None, mux') \<Rightarrow>
               (Returned (), registry',
                [LogInfo ''Starting prometheus exporter'', KingpinParse,
                 MustRegisterCalled scaleSetCollectors, HttpHandle (metricsPath env),
                 HttpHandle ''/'', MetricsServerSpawned]))))))"

text \<open>
  \<open>run\<close> takes the registry and returns how it ended, the registry and the events. A deferred
  call runs when \<open>run\<close> returns or panics, not when the process exits.
\<close>

definition run ::
  "('p, 'c, 'l, 'k) Env \<Rightarrow> RunnerScaleSetListenerConfig \<Rightarrow> Logger \<Rightarrow> string list
     \<Rightarrow> error option outcome \<times> string list \<times> event list" where
  "run env rc lgr registry =
     (let creds = run_creds rc in
      case newActionsClientFromConfig env rc creds
             [WithLogger lgr, WithUserAgent (''actions-runner-controller/'' @ build_Version env)] of
        Inl err \<Rightarrow>
          (Returned (Some (FailedToCreateActionsClient err)), registry,
           [NotifyContext, ContextStop])
      | Inr actionsServiceClient \<Rightarrow>
     (case NewAutoScalerClient env actionsServiceClient lgr (RunnerScaleSetId rc) of
        Inl err \<Rightarrow>
          (Returned (Some (FailedToCreateMessageListener err)), registry,
           [NotifyContext, NewAutoScalerClientCalled (RunnerScaleSetId rc), ContextStop])
      | Inr autoScalerClient \<Rightarrow>
     (case NewKubernetesManager env lgr of
        Inl err \<Rightarrow>
          (Returned (Some (FailedToCreateKubernetesManager err)), registry,
           [NotifyContext, NewAutoScalerClientCalled (RunnerScaleSetId rc),
            NewKubernetesManagerCalled, ListenerClose, ContextStop])
      | Inr kubeManager \<Rightarrow>
     (let scaleSettings = run_scaleSettings rc;
          service = NewService autoScalerClient kubeManager scaleSettings
                      [run_serviceOption rc lgr];
          evs = [NotifyContext, NewAutoScalerClientCalled (RunnerScaleSetId rc),
                 NewKubernetesManagerCalled, NewServiceCalled scaleSettings]
      in case (if EnablePrometheusMetrics rc then run_metrics env registry
               else (Returned (), registry, [])) of
           (Exited n, registry', evs') \<Rightarrow> (Exited n, registry', evs @ evs')
         | (Panicked e, registry', evs') \<Rightarrow>
             (Panicked e, registry', evs @ evs' @ [ListenerClose, ContextStop])
         | (Running, registry', evs') \<Rightarrow> (Running, registry', evs @ evs')
         | (Returned u, registry', evs') \<Rightarrow>
             (case Service_Start service (observations env) of
                (sts, Returned (Some err)) \<Rightarrow>
                  (Returned (Some (FailedToStartMessageQueueListener err)), registry',
                   evs @ evs' @ [ServiceStartCalled] @ map ServiceEntered sts
                     @ [ListenerClose, ContextStop])
              | (sts, Returned None) \<Rightarrow>
                  (Returned None, registry',
                   evs @ evs' @ [ServiceStartCalled] @ map ServiceEntered sts
                     @ [ListenerClose, ContextStop])
              | (sts, Exited n) \<Rightarrow>
                  (Exited n, registry',
                   evs @ evs' @ [ServiceStartCalled] @ map ServiceEntered sts)
              | (sts, Panicked e) \<Rightarrow>
                  (Panicked e, registry',
                   evs @ evs' @ [ServiceStartCalled] @ map ServiceEntered sts
                     @ [ListenerClose, ContextStop])
              | (sts, Running) \<Rightarrow>
                  (Running, registry',
                   evs @ evs' @ [ServiceStartCalled] @ map ServiceEntered sts))))))"

subsection \<open>\<open>main\<close>\<close>

definition main ::
  "('p, 'c, 'l, 'k) Env \<Rightarrow> string list \<Rightarrow> unit outcome \<times> string list \<times> event list" where
  "main env registry =
     (case NewLogger env of
        Inl err \<Rightarrow> (Exited 1, registry, [Stderr err ''Error: creating logger'', OsExit 1])
      | Inr lgr \<Rightarrow>
     (case envconfig_Process env of
        Inl err \<Rightarrow>
          (Exited 1, registry,
           [LogError err
              ''Error: processing environment variables for RunnerScaleSetListenerConfig'',
            OsExit 1])
      | Inr rc \<Rightarrow>
     (case validateConfig rc of
        Some err \<Rightarrow> (Exited 1, registry, [LogError err ''Inputs validation failed'', OsExit 1])
      | None \<Rightarrow>
     (case run env rc lgr registry of
        (Returned (Some err), registry', evs) \<Rightarrow>
          (Exited 1, registry', RunCalled rc # evs @ [LogError err ''Run error'', OsExit 1])
      | (Returned None, registry', evs) \<Rightarrow> (Returned (), registry', RunCalled rc # evs)
      | (Exited n, registry', evs) \<Rightarrow> (Exited n, registry', RunCalled rc # evs)
      | (Panicked e, registry', evs) \<Rightarrow> (Panicked e, registry', RunCalled rc # evs)
      | (Running, registry', evs) \<Rightarrow> (Running, registry', RunCalled rc # evs)))))"

subsection \<open>Reading the events\<close>

text \<open>The settings built by an event, the collectors registered by an event, and the events
  before the service loop is started.\<close>

fun settingsBuilt :: "event \<Rightarrow> ScaleSettings list" where
  "settingsBuilt (NewServiceCalled st) = [st]"
| "settingsBuilt e = []"

fun collectorsRegistered :: "event \<Rightarrow> Collector list" where
  "collectorsRegistered (MustRegisterCalled cs) = cs"
| "collectorsRegistered e = []"

definition beforeStart :: "event list \<Rightarrow> event list" where
  "beforeStart evs = takeWhile (\<lambda>e. e \<noteq> ServiceStartCalled) evs"

text \<open>
  Whether the proxy configuration of the environment is attached to what
  \<open>newActionsClientFromConfig\<close> returns, for collaborators whose client is the list of the
  options it was built with: a client was built, and one of its options is the proxy option
  whose function asks the proxy function of the environment about the URL of the request.
\<close>

definition proxyAttached ::
  "('p, 'p ClientOption list, 'l, 'k) Env \<Rightarrow> error + 'p ClientOption list \<Rightarrow> bool" where
  "proxyAttached env r =
     (case r of
        Inl err \<Rightarrow> False
      | Inr options \<Rightarrow>
          WithProxy (\<lambda>req. FromEnvironment_ProxyFunc env (URL req)) \<in> set options)"

subsection \<open>Concrete inputs\<close>

text \<open>A configuration with token authentication that \<open>validateConfig\<close> accepts, and
  variants of it: negative bounds, a zero scale-set id, app authentication, a root
  certificate, a root certificate that does not parse.\<close>

definition exampleConfig :: RunnerScaleSetListenerConfig where
  "exampleConfig =
     \<lparr>ConfigureUrl = ''https://github.com/org/repo'', AppID = 0, AppInstallationID = 0,
      AppPrivateKey = [], Token = ''token'',
      EphemeralRunnerSetNamespace = ''arc-runners'', EphemeralRunnerSetName = ''runner-set'',
      MaxRunners = 5, MinRunners = 0, RunnerScaleSetId = 65, ServerRootCA = [],
      EnablePrometheusMetrics = True\<rparr>"


definition zeroIdConfig :: RunnerScaleSetListenerConfig where
  "zeroIdConfig = exampleConfig\<lparr>RunnerScaleSetId := 0\<rparr>"

definition appConfig :: RunnerScaleSetListenerConfig where
  "appConfig = exampleConfig\<lparr>Token := [], AppID := 12, AppInstallationID := 0,
     AppPrivateKey := ''key''\<rparr>"

definition rootCAConfig :: RunnerScaleSetListenerConfig where
  "rootCAConfig = exampleConfig\<lparr>ServerRootCA := ''PEM''\<rparr>"

definition garbageCAConfig :: RunnerScaleSetListenerConfig where
  "garbageCAConfig = exampleConfig\<lparr>ServerRootCA := ''garbage''\<rparr>"

text \<open>
  Collaborators that all succeed: sixteen different descriptors, a PEM parser that knows one
  certificate, and a service loop that creates its session, handles one message, polls once
  more and is then cancelled. The client is its URL, the listener its scale-set id.
\<close>

fun exampleDesc :: "Collector \<Rightarrow> string" where
  "exampleDesc githubRunnerScaleSetAvailableJobs = ''available_jobs''"
| "exampleDesc githubRunnerScaleSetAcquiredJobs = ''acquired_jobs''"
| "exampleDesc githubRunnerScaleSetAssignedJobs = ''assigned_jobs''"
| "exampleDesc githubRunnerScaleSetRunningJobs = ''running_jobs''"
| "exampleDesc githubRunnerScaleSetRegisteredRunners = ''registered_runners''"
| "exampleDesc githubRunnerScaleSetBusyRunners = ''busy_runners''"
| "exampleDesc githubRunnerScaleSetIdleRunners = ''idle_runners''"
| "exampleDesc githubRunnerScaleSetAcquireJobTotal = ''acquire_job_total''"
| "exampleDesc githubRunnerScaleSetDesiredEphemeralRunnerPods = ''desired_pods''"
| "exampleDesc githubRunnerScaleSetJobAvailableTotal = ''job_available_total''"
| "exampleDesc githubRunnerScaleSetJobAssignedTotal = ''job_assigned_total''"
| "exampleDesc githubRunnerScaleSetJobStartedTotal = ''job_started_total''"
| "exampleDesc githubRunnerScaleSetJobCompletedTotal = ''job_completed_total''"
| "exampleDesc githubRunnerScaleSetJobQueueDurationSeconds = ''job_queue_duration_seconds''"
| "exampleDesc githubRunnerScaleSetJobStartDurationSeconds = ''job_start_duration_seconds''"
| "exampleDesc githubRunnerScaleSetJobRunDurationSeconds = ''job_run_duration_seconds''"

definition exampleEnv :: "(string list, string, go_int, unit) Env" where
  "exampleEnv =
     \<lparr>NewLogger = Inr (Logger []),
      envconfig_Process = Inr exampleConfig,
      SystemCertPool = Inr [''system-root''],
      AppendCertsFromPEM = (\<lambda>pool pem. if pem = ''PEM'' then (pool @ [pem], True) else (pool, False)),
      FromEnvironment_ProxyFunc = (\<lambda>u. Inr None),
      NewClient = (\<lambda>u creds options. Inr u),
      NewAutoScalerClient = (\<lambda>c l i. Inr i),
      NewKubernetesManager = (\<lambda>l. Inr ()),
      kingpin_Parse = None,
      NewLandingPage = (\<lambda>c. None),
      build_Version = ''dev'',
      version_Info = ''dev'',
      metricsPath = ''/metrics'',
      muxPatterns = [],
      collectorDesc = exampleDesc,
      observations = [SessionCreated, MessageReceived, NoMessage, CancelSignal]\<rparr>"

definition zeroIdEnv :: "(string list, string, go_int, unit) Env" where
  "zeroIdEnv = exampleEnv\<lparr>envconfig_Process := Inr zeroIdConfig\<rparr>"

text \<open>The same collaborators, with a client that is the list of the options it was built
  with.\<close>

definition recordingEnv :: "(string list, string list ClientOption list, go_int, unit) Env" where
  "recordingEnv =
     \<lparr>NewLogger = Inr (Logger []),
      envconfig_Process = Inr exampleConfig,
      SystemCertPool = Inr [''system-root''],
      AppendCertsFromPEM = (\<lambda>pool pem. if pem = ''PEM'' then (pool @ [pem], True) else (pool, False)),
      FromEnvironment_ProxyFunc = (\<lambda>u. Inr None),
      NewClient = (\<lambda>u creds options. Inr options),
      NewAutoScalerClient = (\<lambda>c l i. Inr i),
      NewKubernetesManager = (\<lambda>l. Inr ()),
      kingpin_Parse = None,
      NewLandingPage = (\<lambda>c. None),
      build_Version = ''dev'',
      version_Info = ''dev'',
      metricsPath = ''/metrics'',
      muxPatterns = [],
      collectorDesc = exampleDesc,
      observations = [SessionCreated, MessageReceived, NoMessage, CancelSignal]\<rparr>"

section \<open>Properties\<close>

subsection \<open>The service loop\<close>

text \<open>The loop returns nil only after the cancellation signal, having drained and stopped; it
  returns an error only for a fatal authentication error; it never exits or panics; and once
  the cancellation signal is among the observations, it returns.\<close>

lemma Service_step_returns:
  "Service_step st ob = (sts, Some r) \<Longrightarrow>
     (ob = CancelSignal \<and> r = None \<and> sts = [Draining, Stopped])
     \<or> (\<exists>e. ob = AuthError e \<and> r = Some e \<and> st = Starting \<and> sts = [])"
  by (cases "(st, ob)" rule: Service_step.cases) auto

lemma Service_loop_nil:
  "Service_loop st obs = (sts, Returned None) \<Longrightarrow>
     CancelSignal \<in> set obs \<and> (\<exists>pre. sts = pre @ [Draining, Stopped])"
proof (induction obs arbitrary: st sts)
  case Nil
  then show ?case by simp
next
  case (Cons ob obs)
  show ?case
  proof (cases "Service_step st ob")
    case (Pair sts0 r0)
    show ?thesis
    proof (cases r0)
      case None
      with Pair Cons.prems obtain sts' where
        l: "Service_loop (last (st # sts0)) obs = (sts', Returned None)" and s: "sts = sts0 @ sts'"
        by (auto split: prod.splits)
      from Cons.IH [OF l] s show ?thesis by auto
    next
      case (Some r)
      with Pair Cons.prems have "r = None" "sts = sts0" by auto
      with Service_step_returns [of st ob sts0 r] Pair Some show ?thesis by auto
    qed
  qed
qed

lemma Service_loop_error:
  "Service_loop st obs = (sts, Returned (Some e)) \<Longrightarrow> AuthError e \<in> set obs"
proof (induction obs arbitrary: st sts)
  case Nil
  then show ?case by simp
next
  case (Cons ob obs)
  show ?case
  proof (cases "Service_step st ob")
    case (Pair sts0 r0)
    show ?thesis
    proof (cases r0)
      case None
      with Pair Cons.prems obtain sts' where
        l: "Service_loop (last (st # sts0)) obs = (sts', Returned (Some e))"
        by (auto split: prod.splits)
      from Cons.IH [OF l] show ?thesis by simp
    next
      case (Some r)
      with Pair Cons.prems have "r = Some e" by auto
      with Service_step_returns [of st ob sts0 r] Pair Some show ?thesis by auto
    qed
  qed
qed

lemma Service_loop_ends:
  "Service_loop st obs = (sts, r) \<Longrightarrow> r = Running \<or> (\<exists>x. r = Returned x)"
proof (induction obs arbitrary: st sts r)
  case Nil
  then show ?case by simp
next
  case (Cons ob obs)
  show ?case
  proof (cases "Service_step st ob")
    case (Pair sts0 r0)
    show ?thesis
    proof (cases r0)
      case None
      with Pair Cons.prems obtain sts' where
        "Service_loop (last (st # sts0)) obs = (sts', r)"
        by (auto split: prod.splits)
      then show ?thesis by (rule Cons.IH)
    next
      case (Some x)
      with Pair Cons.prems show ?thesis by auto
    qed
  qed
qed

lemma Service_loop_cancel_returns:
  "CancelSignal \<in> set obs \<Longrightarrow> \<exists>sts x. Service_loop st obs = (sts, Returned x)"
proof (induction obs arbitrary: st)
  case Nil
  then show ?case by simp
next
  case (Cons ob obs)
  show ?case
  proof (cases "Service_step st ob")
    case (Pair sts0 r0)
    show ?thesis
    proof (cases r0)
      case (Some x)
      with Pair show ?thesis by simp
    next
      case None
      with Pair have "ob \<noteq> CancelSignal" by auto
      with Cons.prems have "CancelSignal \<in> set obs" by simp
      from Cons.IH [OF this, of "last (st # sts0)"] obtain sts' x
        where "Service_loop (last (st # sts0)) obs = (sts', Returned x)" by blast
      with Pair None show ?thesis by simp
    qed
  qed
qed

subsection \<open>The registry\<close>

text \<open>Collectors with different descriptors, none of them registered yet, are all registered;
  a collector whose descriptor is registered already makes \<open>MustRegister\<close> panic.\<close>

lemma MustRegister_fresh:
  "distinct (map desc cs) \<Longrightarrow> set (map desc cs) \<inter> set registry = {} \<Longrightarrow>
     MustRegister desc cs registry = (None, registry @ map desc cs)"
  by (induction cs arbitrary: registry) auto

lemma MustRegister_again:
  "c \<in> set cs \<Longrightarrow> desc c \<in> set registry \<Longrightarrow> \<exists>c'. fst (MustRegister desc cs registry) = Some (AlreadyRegisteredError c')"
  by (induction cs arbitrary: registry) auto

subsection \<open>The shape of a run that starts the loop\<close>

lemma NewService_settings:
  "settings (NewService l k st [run_serviceOption rc lgr]) = st"
  by (simp add: NewService_def run_serviceOption_def)

lemma run_metrics_events:
  "run_metrics env registry = (out, registry', evs) \<Longrightarrow>
     ServiceStartCalled \<notin> set evs \<and> concat (map settingsBuilt evs) = []
     \<and> (\<forall>u. out = Returned u \<longrightarrow>
           concat (map collectorsRegistered evs) = scaleSetCollectors
           \<and> MustRegister (collectorDesc env) scaleSetCollectors registry = (None, registry'))
     \<and> out \<noteq> Running"
  by (auto simp: run_metrics_def split: option.splits prod.splits)

lemma run_started:
  assumes "run env rc lgr registry = (out, registry', evs)" and "ServiceStartCalled \<in> set evs"
  shows "\<exists>evs1.
     (if EnablePrometheusMetrics rc then run_metrics env registry
      else (Returned (), registry, [])) = (Returned (), registry', evs1)
     \<and> evs = [NotifyContext, NewAutoScalerClientCalled (RunnerScaleSetId rc),
              NewKubernetesManagerCalled, NewServiceCalled (run_scaleSettings rc)]
             @ evs1 @ [ServiceStartCalled]
             @ map ServiceEntered (fst (Service_loop Starting (observations env)))
             @ (case out of Running \<Rightarrow> [] | Exited n \<Rightarrow> [] | Returned r \<Rightarrow> [ListenerClose, ContextStop]
                 | Panicked e \<Rightarrow> [ListenerClose, ContextStop])"
proof (cases "EnablePrometheusMetrics rc")
  case True
  obtain o1 r1 e1 where m: "run_metrics env registry = (o1, r1, e1)"
    by (cases "run_metrics env registry") auto
  from run_metrics_events [OF m] have n: "ServiceStartCalled \<notin> set e1" by simp
  from assms True m n show ?thesis
    by (auto simp: run_def Let_def NewService_settings Service_Start_def
        split: sum.splits outcome.splits prod.splits option.splits)
next
  case False
  with assms show ?thesis
    by (auto simp: run_def Let_def NewService_settings Service_Start_def
        split: sum.splits outcome.splits prod.splits option.splits)
qed

lemma takeWhile_fresh:
  "x \<notin> set xs \<Longrightarrow> takeWhile (\<lambda>e. e \<noteq> x) (xs @ x # ys) = xs"
  by (induction xs) auto


lemma collectorsRegistered_entered: "concat (map collectorsRegistered (map ServiceEntered sts)) = []"
  by (induction sts) auto

subsection \<open>The concrete inputs, evaluated\<close>

lemma validateConfig_example: "validateConfig exampleConfig = None"
  by (simp add: validateConfig_def exampleConfig_def word_sless_alt)

lemma validateConfig_zeroId: "validateConfig zeroIdConfig = Some (RunnerScaleSetIdMissing 0)"
  by (simp add: validateConfig_def zeroIdConfig_def exampleConfig_def)

lemma validateConfig_app: "validateConfig appConfig = None"
  by (simp add: validateConfig_def appConfig_def exampleConfig_def word_sless_alt)

lemma run_example:
  "run exampleEnv exampleConfig (Logger []) [] =
     (Returned None, map exampleDesc scaleSetCollectors,
      [NotifyContext, NewAutoScalerClientCalled 65, NewKubernetesManagerCalled,
       NewServiceCalled
         \<lparr>Namespace = ''arc-runners'', ResourceName = ''runner-set'',
          ScaleSettings.MaxRunners = 5, ScaleSettings.MinRunners = 0\<rparr>,
       LogInfo ''Starting prometheus exporter'', KingpinParse,
       MustRegisterCalled scaleSetCollectors,
       HttpHandle ''/metrics'', HttpHandle ''/'', MetricsServerSpawned,
       ServiceStartCalled, ServiceEntered Listening, ServiceEntered Reconciling,
       ServiceEntered Listening, ServiceEntered Draining, ServiceEntered Stopped,
       ListenerClose, ContextStop])"
  by (simp add: run_def exampleEnv_def exampleConfig_def newActionsClientFromConfig_def
      run_creds_def run_metrics_def http_Handle_def scaleSetCollectors_def NewService_def
      run_serviceOption_def run_scaleSettings_def Service_Start_def)

text \<open>Running \<open>run\<close> a second time on the registry the first run left panics: the
  duplicate check of the model is not idle.\<close>

lemma run_twice_panics:
  "fst (run exampleEnv exampleConfig (Logger []) (map exampleDesc scaleSetCollectors))
     = Panicked (AlreadyRegisteredError githubRunnerScaleSetAvailableJobs)"
  by (simp add: run_def exampleEnv_def exampleConfig_def newActionsClientFromConfig_def
      run_creds_def run_metrics_def scaleSetCollectors_def)

text \<open>With \<open>/\<close> as the metrics path, installing the landing page panics, after the
  collectors were registered and before the service loop is started.\<close>

lemma run_metricsPath_root_panics:
  "fst (run (exampleEnv\<lparr>metricsPath := ''/''\<rparr>) exampleConfig (Logger []) [])
     = Panicked (HttpHandlePanic ''/'')"
  by (simp add: run_def exampleEnv_def exampleConfig_def newActionsClientFromConfig_def
      run_creds_def run_metrics_def http_Handle_def scaleSetCollectors_def)

subsection \<open>C1: the bounds of an accepted configuration\<close>




subsection \<open>C2: a rejected configuration ends the process before \<open>run\<close>\<close>

text \<open>
  C2: \<open>validateConfig\<close> returns an error when the configure URL, the namespace or the name
  of the runner set is empty, when the scale-set id is zero, or when \<open>MaxRunners\<close> is below
  \<open>MinRunners\<close>; and when \<open>validateConfig\<close> returns an error, \<open>main\<close> logs it and exits with
  status 1, and \<open>run\<close> is not called.
\<close>

theorem validateConfig_rejects_and_main_exits:
  "(ConfigureUrl config = [] \<or> EphemeralRunnerSetNamespace config = []
      \<or> EphemeralRunnerSetName config = [] \<or> RunnerScaleSetId config = 0
      \<or> MaxRunners config <s MinRunners config
    \<longrightarrow> validateConfig config \<noteq> None)
   \<and> (NewLogger env = Inr lgr \<and> envconfig_Process env = Inr config
        \<and> validateConfig config = Some err
      \<longrightarrow> main env registry
           = (Exited 1, registry, [LogError err ''Inputs validation failed'', OsExit 1]))
   \<and> (envconfig_Process env = Inr config \<and> validateConfig config \<noteq> None
      \<longrightarrow> (\<forall>rc. RunCalled rc \<notin> set (snd (snd (main env registry)))))"
proof (intro conjI impI)
  assume "ConfigureUrl config = [] \<or> EphemeralRunnerSetNamespace config = []
      \<or> EphemeralRunnerSetName config = [] \<or> RunnerScaleSetId config = 0
      \<or> MaxRunners config <s MinRunners config"
  then show "validateConfig config \<noteq> None"
    by (auto simp: validateConfig_def)
next
  assume "NewLogger env = Inr lgr \<and> envconfig_Process env = Inr config
        \<and> validateConfig config = Some err"
  then show "main env registry
           = (Exited 1, registry, [LogError err ''Inputs validation failed'', OsExit 1])"
    by (simp add: main_def)
next
  assume "envconfig_Process env = Inr config \<and> validateConfig config \<noteq> None"
  then show "\<forall>rc. RunCalled rc \<notin> set (snd (snd (main env registry)))"
    by (auto simp: main_def split: sum.splits)
qed

text \<open>C2 at the configuration whose scale-set id is zero.\<close>

theorem validateConfig_rejects_and_main_exits_witness:
  "RunnerScaleSetId zeroIdConfig = 0
   \<and> validateConfig zeroIdConfig = Some (RunnerScaleSetIdMissing 0)
   \<and> main zeroIdEnv []
       = (Exited 1, [], [LogError (RunnerScaleSetIdMissing 0) ''Inputs validation failed'',
                         OsExit 1])
   \<and> (\<forall>rc. RunCalled rc \<notin> set (snd (snd (main zeroIdEnv []))))"
proof -
  have a: "NewLogger zeroIdEnv = Inr (Logger [])" "envconfig_Process zeroIdEnv = Inr zeroIdConfig"
    by (simp_all add: zeroIdEnv_def exampleEnv_def)
  have b: "RunnerScaleSetId zeroIdConfig = 0"
    by (simp add: zeroIdConfig_def)
  from validateConfig_rejects_and_main_exits
         [of zeroIdConfig zeroIdEnv "Logger []" "RunnerScaleSetIdMissing 0" "[]"]
       a b validateConfig_zeroId
  show ?thesis by simp
qed

subsection \<open>C3: why \<open>run\<close> returns\<close>

text \<open>
  C3: when \<open>run\<close> returns, either it returns the error of a failed construction (of the
  client, of the listener, of the Kubernetes manager) or of the service loop, or it returns
  nil, and then the cancellation signal was observed and the loop went through Draining to
  Stopped before the deferred calls ran. The service loop is the one modelled from the
  specification.
\<close>

theorem run_returns_only:
  assumes "run env rc lgr registry = (Returned r, registry', evs)"
  shows "(\<exists>e. r = Some (FailedToCreateActionsClient e)
            \<and> newActionsClientFromConfig env rc (run_creds rc)
                 [WithLogger lgr,
                  WithUserAgent (''actions-runner-controller/'' @ build_Version env)] = Inl e)
       \<or> (\<exists>e cl. r = Some (FailedToCreateMessageListener e)
            \<and> NewAutoScalerClient env cl lgr (RunnerScaleSetId rc) = Inl e)
       \<or> (\<exists>e. r = Some (FailedToCreateKubernetesManager e)
            \<and> NewKubernetesManager env lgr = Inl e)
       \<or> (\<exists>e. r = Some (FailedToStartMessageQueueListener e)
            \<and> AuthError e \<in> set (observations env) \<and> ServiceStartCalled \<in> set evs)
       \<or> (r = None \<and> CancelSignal \<in> set (observations env)
            \<and> (\<exists>pre. evs = pre @ [ServiceEntered Draining, ServiceEntered Stopped,
                                   ListenerClose, ContextStop]))"
proof (cases "ServiceStartCalled \<in> set evs")
  case True
  from run_started [OF assms True] obtain evs1 where
    m: "(if EnablePrometheusMetrics rc then run_metrics env registry
         else (Returned (), registry, [])) = (Returned (), registry', evs1)" and
    e: "evs = [NotifyContext, NewAutoScalerClientCalled (RunnerScaleSetId rc),
              NewKubernetesManagerCalled, NewServiceCalled (run_scaleSettings rc)]
             @ evs1 @ [ServiceStartCalled]
             @ map ServiceEntered (fst (Service_loop Starting (observations env)))
             @ [ListenerClose, ContextStop]"
    by auto
  obtain sts x where l: "Service_loop Starting (observations env) = (sts, x)"
    by (cases "Service_loop Starting (observations env)") auto
  show ?thesis
  proof (cases r)
    case None
    with assms m l have "x = Returned None"
      by (auto simp: run_def Let_def Service_Start_def
          split: sum.splits outcome.splits prod.splits option.splits if_splits)
    with l Service_loop_nil [of Starting "observations env" sts]
    obtain pre where "CancelSignal \<in> set (observations env)" "sts = pre @ [Draining, Stopped]"
      by auto
    with e l None show ?thesis by simp
  next
    case (Some err)
    with assms m l True obtain e' where "x = Returned (Some e')" "err = FailedToStartMessageQueueListener e'"
      by (auto simp: run_def Let_def Service_Start_def
          split: sum.splits outcome.splits prod.splits option.splits if_splits)
    with l Service_loop_error [of Starting "observations env" sts e'] Some True
    show ?thesis by simp
  qed
next
  case False
  with assms show ?thesis
    by (auto simp: run_def Let_def
        split: sum.splits outcome.splits prod.splits option.splits if_splits)
qed

text \<open>C3 at the collaborators that succeed: \<open>run\<close> returns nil after the cancellation.\<close>

theorem run_returns_only_witness:
  "fst (run exampleEnv exampleConfig (Logger []) []) = Returned None
   \<and> CancelSignal \<in> set (observations exampleEnv)
   \<and> (\<exists>pre. snd (snd (run exampleEnv exampleConfig (Logger []) []))
              = pre @ [ServiceEntered Draining, ServiceEntered Stopped,
                       ListenerClose, ContextStop])"
  using run_returns_only [OF run_example] by (simp add: run_example)

subsection \<open>C4: the labels\<close>

text \<open>The callback sets exactly four labels.\<close>

lemma labels_dom:
  "dom (prometheusLabels (run_serviceOption rc lgr s)) =
     {''runner_scale_set_name'', ''runner_scale_set_config_url'',
      ''auto_scaling_runner_set_name'', ''auto_scaling_runner_set_namespace''}"
  by (auto simp: run_serviceOption_def)

text \<open>The string that \<open>string(i)\<close> gives is never the decimal representation of \<open>i\<close>: it is
  one code point, and a decimal representation of one character is a digit, whose code point
  is not its value.\<close>

lemma decimal_nat_small: "n < 10 \<Longrightarrow> decimal_nat n = [char_of (48 + n)]"
  by (subst decimal_nat.simps) simp

lemma decimal_nat_large:
  "\<not> n < 10 \<Longrightarrow> decimal_nat n = decimal_nat (n div 10) @ [char_of (48 + n mod 10)]"
  by (subst decimal_nat.simps) simp

lemma of_char_char_of_nat: "(of_char (char_of (n::nat)) :: int) = int n mod 256"
proof -
  have "(of_char (char_of n) :: int) = of_char (char_of (int n))" by simp
  then show ?thesis by (simp only: of_char_of)
qed

lemma decimal_nat_hd:
  "\<exists>c cs. decimal_nat n = c # cs \<and> (of_char c :: int) \<le> 57"
proof (induction n rule: decimal_nat.induct)
  case (1 n)
  show ?case
  proof (cases "n < 10")
    case True
    then have "int (48 + n) mod 256 = int (48 + n)" by simp
    with True show ?thesis by (simp add: decimal_nat_small of_char_char_of_nat)
  next
    case False
    from 1 [OF False] obtain c cs where
      "decimal_nat (n div 10) = c # cs" "(of_char c :: int) \<le> 57"
      by blast
    with False show ?thesis by (simp add: decimal_nat_large)
  qed
qed

lemma decimal_nat_length: "\<not> n < 10 \<Longrightarrow> 2 \<le> length (decimal_nat n)"
proof -
  assume a: "\<not> n < 10"
  from decimal_nat_hd [of "n div 10"] obtain c cs where "decimal_nat (n div 10) = c # cs"
    by blast
  with a show ?thesis by (simp add: decimal_nat_large)
qed

lemma encoderune_hd:
  assumes "128 \<le> r"
  shows "\<exists>c cs. encoderune r = c # cs \<and> (192::int) \<le> of_char c"
proof -
  consider (bad) "1114111 < r \<or> (55296 \<le> r \<and> r \<le> 57343)"
    | (two) "r < 2048"
    | (three) "2048 \<le> r" "r < 65536" "\<not> (55296 \<le> r \<and> r \<le> 57343)"
    | (four) "65536 \<le> r" "r \<le> 1114111"
    by linarith
  then show ?thesis
  proof cases
    case bad
    with assms show ?thesis by (auto simp: encoderune_def)
  next
    case two
    with assms have "0 \<le> r div 64" "r div 64 < 32" by simp_all
    then have "(192 + r div 64) mod 256 = 192 + r div 64" by simp
    with assms two show ?thesis by (simp add: encoderune_def)
  next
    case three
    then have "0 \<le> r div 4096" "r div 4096 < 16" by simp_all
    then have "(224 + r div 4096) mod 256 = 224 + r div 4096" by simp
    with assms three show ?thesis by (simp add: encoderune_def)
  next
    case four
    then have "0 \<le> r div 262144" "r div 262144 < 5" by simp_all
    then have "(240 + r div 262144) mod 256 = 240 + r div 262144" by simp
    with assms four show ?thesis by (simp add: encoderune_def)
  qed
qed

lemma string_of_int_never_decimal: "string_of_int i \<noteq> Itoa i"
proof -
  consider (neg) "sint i < 0" | (digit) "0 \<le> sint i" "sint i < 10"
    | (ascii) "10 \<le> sint i" "sint i < 128" | (multi) "128 \<le> sint i"
    by linarith
  then show ?thesis
  proof cases
    case neg
    then show ?thesis
      by (simp add: string_of_int_def Itoa_def encoderune_def char_of_def)
  next
    case digit
    then have n: "nat (sint i) < 10" by simp
    have "char_of (48 + nat (sint i)) = (char_of (int (48 + nat (sint i))) :: char)"
      by (simp only: char_of_nat)
    also from digit have "int (48 + nat (sint i)) = 48 + sint i" by simp
    finally have "char_of (48 + nat (sint i)) = (char_of (48 + sint i) :: char)" .
    moreover from digit have "sint i mod 256 \<noteq> (48 + sint i) mod 256" by simp
    ultimately show ?thesis using digit decimal_nat_small [OF n]
      by (simp add: string_of_int_def Itoa_def encoderune_def)
  next
    case ascii
    then have "\<not> nat (sint i) < 10" by simp
    from decimal_nat_length [OF this]
    have "length (decimal_nat (nat (sint i))) \<noteq> length [char_of (sint i) :: char]" by simp
    then have "decimal_nat (nat (sint i)) \<noteq> [char_of (sint i)]" by metis
    with ascii show ?thesis
      by (auto simp: string_of_int_def Itoa_def encoderune_def)
  next
    case multi
    from encoderune_hd [OF multi] obtain c cs where
      e: "encoderune (sint i) = c # cs" "(192::int) \<le> of_char c" by blast
    from decimal_nat_hd [of "nat (sint i)"] obtain d ds where
      d: "decimal_nat (nat (sint i)) = d # ds" "(of_char d :: int) \<le> 57" by blast
    from multi e d show ?thesis
      by (auto simp: string_of_int_def Itoa_def)
  qed
qed

text \<open>
  C4 says that the label \<open>runner_scale_set_name\<close> is the decimal representation of
  \<open>RunnerScaleSetId\<close>. The code writes \<open>string(rc.RunnerScaleSetId)\<close>, so for the scale-set
  id 65 the label is \<open>A\<close>, where the decimal representation is \<open>65\<close>.
\<close>

theorem runner_scale_set_name_is_not_decimal:
  "prometheusLabels (run_serviceOption exampleConfig lgr s) ''runner_scale_set_name''
     = Some ''A''
   \<and> Itoa (RunnerScaleSetId exampleConfig) = ''65''"
proof
  show "prometheusLabels (run_serviceOption exampleConfig lgr s) ''runner_scale_set_name''
          = Some ''A''"
    by (simp add: run_serviceOption_def exampleConfig_def string_of_int_def
        encoderune_def char_of_def)
  show "Itoa (RunnerScaleSetId exampleConfig) = ''65''"
    by code_simp
qed

subsection \<open>C5: the trust anchor is optional\<close>

lemma proxyWrapper_eq: "proxyWrapper proxyFunc = (\<lambda>req. proxyFunc (URL req))"
  by (rule ext) (simp add: proxyWrapper_def)

text \<open>
  C5, as stated, fails in its last clause, "in every case the proxy configuration from the
  environment is attached": with a root certificate that does not parse the function returns
  an error before it builds the proxy option, so no client is built and no proxy is attached.
\<close>

theorem newActionsClientFromConfig_proxy_counterexample:
  "newActionsClientFromConfig recordingEnv garbageCAConfig (run_creds garbageCAConfig) []
     = Inl FailedToParseRootCertificate
   \<and> \<not> proxyAttached recordingEnv
         (newActionsClientFromConfig recordingEnv garbageCAConfig
            (run_creds garbageCAConfig) [])"
  by (simp add: newActionsClientFromConfig_def recordingEnv_def garbageCAConfig_def
      proxyAttached_def)

text \<open>
  C5, amended: with an empty \<open>ServerRootCA\<close> the client is built from the given options and
  the proxy option, with no root-CA option; with a non-empty one, a system pool that cannot be
  loaded and a PEM text that does not parse each give an error and no client; when it parses,
  the client is built from the given options, the root-CA option holding the extended pool,
  and the proxy option; and in every case in which a client is built, the last option it is
  built with is the proxy option whose function asks the proxy function of the environment
  about the URL of the request.
\<close>

theorem newActionsClientFromConfig_trust_anchor:
  "(ServerRootCA config = [] \<longrightarrow>
      newActionsClientFromConfig env config creds options
        = NewClient env (ConfigureUrl config) creds
            (options @ [WithProxy (\<lambda>req. FromEnvironment_ProxyFunc env (URL req))]))
   \<and> (ServerRootCA config \<noteq> [] \<and> SystemCertPool env = Inl e \<longrightarrow>
        newActionsClientFromConfig env config creds options
          = Inl (FailedToLoadSystemCertPool e))
   \<and> (ServerRootCA config \<noteq> [] \<and> SystemCertPool env = Inr systemPool
        \<and> AppendCertsFromPEM env systemPool (ServerRootCA config) = (pool, False) \<longrightarrow>
        newActionsClientFromConfig env config creds options = Inl FailedToParseRootCertificate)
   \<and> (ServerRootCA config \<noteq> [] \<and> SystemCertPool env = Inr systemPool
        \<and> AppendCertsFromPEM env systemPool (ServerRootCA config) = (pool, True) \<longrightarrow>
        newActionsClientFromConfig env config creds options
          = NewClient env (ConfigureUrl config) creds
              (options @ [WithRootCAs pool,
                          WithProxy (\<lambda>req. FromEnvironment_ProxyFunc env (URL req))]))
   \<and> (newActionsClientFromConfig env config creds options = Inr client \<longrightarrow>
        (\<exists>os. NewClient env (ConfigureUrl config) creds
                 (os @ [WithProxy (\<lambda>req. FromEnvironment_ProxyFunc env (URL req))])
               = Inr client))"
proof (intro conjI impI)
  assume "newActionsClientFromConfig env config creds options = Inr client"
  then have "NewClient env (ConfigureUrl config) creds
               (options @ [WithProxy (\<lambda>req. FromEnvironment_ProxyFunc env (URL req))])
             = Inr client
           \<or> (\<exists>p. NewClient env (ConfigureUrl config) creds
                 ((options @ [WithRootCAs p])
                    @ [WithProxy (\<lambda>req. FromEnvironment_ProxyFunc env (URL req))])
               = Inr client)"
    by (auto simp: newActionsClientFromConfig_def proxyWrapper_eq
        split: if_splits sum.splits prod.splits)
  then show "\<exists>os. NewClient env (ConfigureUrl config) creds
                 (os @ [WithProxy (\<lambda>req. FromEnvironment_ProxyFunc env (URL req))])
               = Inr client"
    by blast
qed (simp_all add: newActionsClientFromConfig_def proxyWrapper_eq)

text \<open>The amended C5 at the four cases, and at a client that records its options.\<close>

theorem newActionsClientFromConfig_trust_anchor_witness:
  "newActionsClientFromConfig exampleEnv exampleConfig (run_creds exampleConfig) []
     = NewClient exampleEnv (ConfigureUrl exampleConfig) (run_creds exampleConfig)
         [WithProxy (\<lambda>req. FromEnvironment_ProxyFunc exampleEnv (URL req))]
   \<and> newActionsClientFromConfig (exampleEnv\<lparr>SystemCertPool := Inl (External ''no pool'')\<rparr>)
       rootCAConfig (run_creds rootCAConfig) []
     = Inl (FailedToLoadSystemCertPool (External ''no pool''))
   \<and> newActionsClientFromConfig exampleEnv garbageCAConfig (run_creds garbageCAConfig) []
     = Inl FailedToParseRootCertificate
   \<and> newActionsClientFromConfig exampleEnv rootCAConfig (run_creds rootCAConfig) []
     = NewClient exampleEnv (ConfigureUrl rootCAConfig) (run_creds rootCAConfig)
         [WithRootCAs [''system-root'', ''PEM''],
          WithProxy (\<lambda>req. FromEnvironment_ProxyFunc exampleEnv (URL req))]
   \<and> newActionsClientFromConfig recordingEnv rootCAConfig (run_creds rootCAConfig) []
     = Inr [WithRootCAs [''system-root'', ''PEM''],
            WithProxy (\<lambda>req. FromEnvironment_ProxyFunc recordingEnv (URL req))]
   \<and> proxyAttached recordingEnv
       (newActionsClientFromConfig recordingEnv rootCAConfig (run_creds rootCAConfig) [])"
proof -
  note t = newActionsClientFromConfig_trust_anchor
  have 1: "ServerRootCA exampleConfig = []" by (simp add: exampleConfig_def)
  have 2: "ServerRootCA rootCAConfig \<noteq> []"
    "SystemCertPool (exampleEnv\<lparr>SystemCertPool := Inl (External ''no pool'')\<rparr>)
       = Inl (External ''no pool'')"
    by (simp_all add: rootCAConfig_def)
  have 3: "ServerRootCA garbageCAConfig \<noteq> []"
    "SystemCertPool exampleEnv = Inr [''system-root'']"
    "AppendCertsFromPEM exampleEnv [''system-root''] (ServerRootCA garbageCAConfig)
       = ([''system-root''], False)"
    by (simp_all add: exampleEnv_def garbageCAConfig_def)
  have 4: "AppendCertsFromPEM exampleEnv [''system-root''] (ServerRootCA rootCAConfig)
       = ([''system-root'', ''PEM''], True)"
    by (simp add: exampleEnv_def rootCAConfig_def)
  have 5: "SystemCertPool recordingEnv = Inr [''system-root'']"
    "AppendCertsFromPEM recordingEnv [''system-root''] (ServerRootCA rootCAConfig)
       = ([''system-root'', ''PEM''], True)"
    "NewClient recordingEnv = (\<lambda>u creds options. Inr options)"
    by (simp_all add: recordingEnv_def rootCAConfig_def)
  from t [where config = exampleConfig and env = exampleEnv
            and creds = "run_creds exampleConfig" and options = "[]"] 1
  have a: "newActionsClientFromConfig exampleEnv exampleConfig (run_creds exampleConfig) []
     = NewClient exampleEnv (ConfigureUrl exampleConfig) (run_creds exampleConfig)
         [WithProxy (\<lambda>req. FromEnvironment_ProxyFunc exampleEnv (URL req))]"
    by simp
  from t [where config = rootCAConfig
            and env = "exampleEnv\<lparr>SystemCertPool := Inl (External ''no pool'')\<rparr>"
            and creds = "run_creds rootCAConfig" and options = "[]"
            and e = "External ''no pool''"] 2
  have b: "newActionsClientFromConfig (exampleEnv\<lparr>SystemCertPool := Inl (External ''no pool'')\<rparr>)
       rootCAConfig (run_creds rootCAConfig) []
     = Inl (FailedToLoadSystemCertPool (External ''no pool''))"
    by simp
  from t [where config = garbageCAConfig and env = exampleEnv
            and creds = "run_creds garbageCAConfig" and options = "[]"
            and systemPool = "[''system-root'']" and pool = "[''system-root'']"] 3
  have c: "newActionsClientFromConfig exampleEnv garbageCAConfig (run_creds garbageCAConfig) []
     = Inl FailedToParseRootCertificate"
    by simp
  from t [where config = rootCAConfig and env = exampleEnv
            and creds = "run_creds rootCAConfig" and options = "[]"
            and systemPool = "[''system-root'']" and pool = "[''system-root'', ''PEM'']"]
       2(1) 3(2) 4
  have d: "newActionsClientFromConfig exampleEnv rootCAConfig (run_creds rootCAConfig) []
     = NewClient exampleEnv (ConfigureUrl rootCAConfig) (run_creds rootCAConfig)
         [WithRootCAs [''system-root'', ''PEM''],
          WithProxy (\<lambda>req. FromEnvironment_ProxyFunc exampleEnv (URL req))]"
    by simp
  from t [where config = rootCAConfig and env = recordingEnv
            and creds = "run_creds rootCAConfig" and options = "[]"
            and systemPool = "[''system-root'']" and pool = "[''system-root'', ''PEM'']"]
       2(1) 5
  have f: "newActionsClientFromConfig recordingEnv rootCAConfig (run_creds rootCAConfig) []
     = Inr [WithRootCAs [''system-root'', ''PEM''],
            WithProxy (\<lambda>req. FromEnvironment_ProxyFunc recordingEnv (URL req))]"
    by simp
  from f have g: "proxyAttached recordingEnv
       (newActionsClientFromConfig recordingEnv rootCAConfig (run_creds rootCAConfig) [])"
    by (simp add: proxyAttached_def)
  from a b c d f g show ?thesis by simp
qed

subsection \<open>C6: the scale settings\<close>



subsection \<open>C7: the registration of the collectors\<close>

text \<open>
  The first half of C7 holds of \<open>run\<close> as it is written: with \<open>EnablePrometheusMetrics\<close> set,
  a run that starts the service loop has registered the sixteen collectors exactly once,
  before the loop starts, and has added their sixteen descriptors to the registry.
\<close>

lemma MustRegister_None_registry:
  "MustRegister desc cs registry = (None, registry') \<Longrightarrow> registry' = registry @ map desc cs"
proof (induction cs arbitrary: registry)
  case Nil
  then show ?case by simp
next
  case (Cons c cs)
  then have "MustRegister desc cs (registry @ [desc c]) = (None, registry')"
    by (auto split: if_splits)
  from Cons.IH [OF this] show ?case by simp
qed

lemma collectors_registered_before_start:
  assumes "EnablePrometheusMetrics rc"
    and "run env rc lgr registry = (out, registry', evs)"
    and "ServiceStartCalled \<in> set evs"
  shows "length scaleSetCollectors = 16 \<and> distinct scaleSetCollectors
       \<and> concat (map collectorsRegistered evs) = scaleSetCollectors
       \<and> concat (map collectorsRegistered (beforeStart evs)) = scaleSetCollectors
       \<and> registry' = registry @ map (collectorDesc env) scaleSetCollectors"
proof -
  from run_started [OF assms(2,3)] assms(1) obtain evs1 where
    m: "run_metrics env registry = (Returned (), registry', evs1)" and
    e: "evs = ([NotifyContext, NewAutoScalerClientCalled (RunnerScaleSetId rc),
              NewKubernetesManagerCalled, NewServiceCalled (run_scaleSettings rc)]
             @ evs1) @ ServiceStartCalled
             # (map ServiceEntered (fst (Service_loop Starting (observations env)))
             @ (case out of Running \<Rightarrow> [] | Exited n \<Rightarrow> []
                 | Returned r \<Rightarrow> [ListenerClose, ContextStop]
                 | Panicked e \<Rightarrow> [ListenerClose, ContextStop]))"
    by auto
  from run_metrics_events [OF m] have
    n: "ServiceStartCalled \<notin> set evs1"
       "concat (map collectorsRegistered evs1) = scaleSetCollectors"
       "MustRegister (collectorDesc env) scaleSetCollectors registry = (None, registry')"
    by auto
  from n(1) have f: "ServiceStartCalled \<notin> set ([NotifyContext,
              NewAutoScalerClientCalled (RunnerScaleSetId rc),
              NewKubernetesManagerCalled, NewServiceCalled (run_scaleSettings rc)] @ evs1)"
    by simp
  have b: "beforeStart evs = [NotifyContext, NewAutoScalerClientCalled (RunnerScaleSetId rc),
              NewKubernetesManagerCalled, NewServiceCalled (run_scaleSettings rc)] @ evs1"
    unfolding beforeStart_def by (subst e) (rule takeWhile_fresh [OF f])
  have 1: "concat (map collectorsRegistered evs) = scaleSetCollectors"
    by (subst e) (simp add: n collectorsRegistered_entered split: outcome.splits)
  have 2: "concat (map collectorsRegistered (beforeStart evs)) = scaleSetCollectors"
    by (simp add: b n)
  from MustRegister_None_registry [OF n(3)]
  have 3: "registry' = registry @ map (collectorDesc env) scaleSetCollectors" .
  from 1 2 3 show ?thesis by (simp add: scaleSetCollectors_def)
qed

text \<open>
  The second half of C7, that the panic of \<open>MustRegister\<close> for a duplicate registration cannot
  be reached, is a statement about the descriptors of the sixteen collectors and about the
  registry at the start of the process: \<open>MustRegister\<close> does not panic exactly when the
  descriptors differ from one another and none of them is registered yet. The collectors are
  declared outside \<open>main.go\<close>, and \<open>main.go\<close> says nothing about either, so this half is left
  open: sixteen different, fresh descriptors never panic, and two collectors that share a
  descriptor always do.
\<close>

lemma MustRegister_None_iff:
  "fst (MustRegister desc cs registry) = None
     \<longleftrightarrow> distinct (map desc cs) \<and> set (map desc cs) \<inter> set registry = {}"
  by (induction cs arbitrary: registry) auto

lemma MustRegister_Some:
  "MustRegister desc cs registry = (Some x, registry') \<Longrightarrow> \<exists>c. x = AlreadyRegisteredError c"
proof (induction cs arbitrary: registry)
  case Nil
  then show ?case by simp
next
  case (Cons c cs)
  show ?case
  proof (cases "desc c \<in> set registry")
    case True
    with Cons.prems show ?thesis by auto
  next
    case False
    with Cons.prems have "MustRegister desc cs (registry @ [desc c]) = (Some x, registry')"
      by simp
    then show ?thesis by (rule Cons.IH)
  qed
qed

lemma run_no_duplicate_panic_iff:
  assumes "EnablePrometheusMetrics rc"
    and "newActionsClientFromConfig env rc (run_creds rc)
           [WithLogger lgr,
            WithUserAgent (''actions-runner-controller/'' @ build_Version env)] = Inr client"
    and "NewAutoScalerClient env client lgr (RunnerScaleSetId rc) = Inr listener"
    and "NewKubernetesManager env lgr = Inr kube"
    and "kingpin_Parse env = None"
  shows "(\<exists>c. fst (run env rc lgr registry) = Panicked (AlreadyRegisteredError c))
     \<longleftrightarrow> \<not> (distinct (map (collectorDesc env) scaleSetCollectors)
            \<and> set (map (collectorDesc env) scaleSetCollectors) \<inter> set registry = {})"
proof -
  obtain r e where m: "MustRegister (collectorDesc env) scaleSetCollectors registry = (r, e)"
    by (cases "MustRegister (collectorDesc env) scaleSetCollectors registry") auto
  have k: "\<And>x. r = Some x \<Longrightarrow> \<exists>c. x = AlreadyRegisteredError c"
    using m MustRegister_Some by blast
  obtain sts x where l: "Service_loop Starting (observations env) = (sts, x)"
    by (cases "Service_loop Starting (observations env)") auto
  from Service_loop_ends [OF l] have x: "\<forall>e. x \<noteq> Panicked e" by auto
  have "(\<exists>c. fst (run env rc lgr registry) = Panicked (AlreadyRegisteredError c))
          \<longleftrightarrow> r \<noteq> None"
    using assms m l x k
    by (auto simp: run_def Let_def run_metrics_def http_Handle_def Service_Start_def
        split: sum.splits outcome.splits prod.splits option.splits if_splits)
  with m MustRegister_None_iff [of "collectorDesc env" scaleSetCollectors registry]
  show ?thesis by simp
qed

subsection \<open>C8: exactly one authentication method\<close>

text \<open>
  C8: a configuration that \<open>validateConfig\<close> accepts has either a token or complete app
  credentials (\<open>AppID > 0\<close> and a private key), not both and not neither; and \<open>run\<close> takes
  the token when there is one and the app credentials otherwise.
\<close>

theorem validateConfig_one_auth_method:
  "(validateConfig config = None \<longrightarrow>
      ((Token config \<noteq> []) \<noteq> (0 <s AppID config \<and> AppPrivateKey config \<noteq> [])))
   \<and> (Token config = [] \<and> \<not> (0 <s AppID config \<and> AppPrivateKey config \<noteq> []) \<longrightarrow>
        validateConfig config \<noteq> None)
   \<and> (Token config \<noteq> [] \<and> 0 <s AppID config \<and> AppPrivateKey config \<noteq> [] \<longrightarrow>
        validateConfig config \<noteq> None)
   \<and> (Token config \<noteq> [] \<longrightarrow>
        run_creds config = \<lparr>AppCreds = None, Token = Token config\<rparr>)
   \<and> (Token config = [] \<longrightarrow>
        run_creds config =
          \<lparr>AppCreds = Some \<lparr>GitHubAppAuth.AppID = AppID config,
                             GitHubAppAuth.AppInstallationID = AppInstallationID config,
                             GitHubAppAuth.AppPrivateKey = AppPrivateKey config\<rparr>,
           Token = []\<rparr>)"
  by (auto simp: validateConfig_def run_creds_def Let_def split: if_splits)

text \<open>C8 at a token configuration, an app configuration, one with neither and one with
  both.\<close>

theorem validateConfig_one_auth_method_witness:
  "validateConfig exampleConfig = None
   \<and> Token exampleConfig \<noteq> []
   \<and> \<not> (0 <s AppID exampleConfig \<and> AppPrivateKey exampleConfig \<noteq> [])
   \<and> run_creds exampleConfig = \<lparr>AppCreds = None, Token = ''token''\<rparr>
   \<and> validateConfig appConfig = None
   \<and> Token appConfig = []
   \<and> 0 <s AppID appConfig \<and> AppPrivateKey appConfig \<noteq> []
   \<and> run_creds appConfig =
       \<lparr>AppCreds = Some \<lparr>GitHubAppAuth.AppID = 12, GitHubAppAuth.AppInstallationID = 0,
                          GitHubAppAuth.AppPrivateKey = ''key''\<rparr>,
        Token = []\<rparr>
   \<and> validateConfig (exampleConfig\<lparr>Token := []\<rparr>) \<noteq> None
   \<and> validateConfig (appConfig\<lparr>Token := ''token''\<rparr>) \<noteq> None"
proof -
  note t = validateConfig_one_auth_method
  have e: "Token exampleConfig = ''token''" "AppID exampleConfig = 0"
    "AppPrivateKey exampleConfig = []"
    by (simp_all add: exampleConfig_def)
  have a: "Token appConfig = []" "AppID appConfig = 12" "AppPrivateKey appConfig = ''key''"
    "AppInstallationID appConfig = 0"
    by (simp_all add: appConfig_def)
  have p: "0 <s (12 :: int64)" "\<not> 0 <s (0 :: int64)"
    by (simp_all add: word_sless_alt)
  from t [of exampleConfig] validateConfig_example e p
  have 1: "run_creds exampleConfig = \<lparr>AppCreds = None, Token = ''token''\<rparr>" by simp
  from t [of appConfig] validateConfig_app a p
  have 2: "run_creds appConfig =
       \<lparr>AppCreds = Some \<lparr>GitHubAppAuth.AppID = 12, GitHubAppAuth.AppInstallationID = 0,
                          GitHubAppAuth.AppPrivateKey = ''key''\<rparr>,
        Token = []\<rparr>" by simp
  from t [of "exampleConfig\<lparr>Token := []\<rparr>"] e p
  have 3: "validateConfig (exampleConfig\<lparr>Token := []\<rparr>) \<noteq> None" by simp
  from t [of "appConfig\<lparr>Token := ''token''\<rparr>"] a p
  have 4: "validateConfig (appConfig\<lparr>Token := ''token''\<rparr>) \<noteq> None" by simp
  from 1 2 3 4 validateConfig_example validateConfig_app e a p show ?thesis by simp
qed

subsection \<open>C9: the installation id is not validated\<close>

text \<open>
  C9: \<open>validateConfig\<close> gives the same verdict whatever \<open>AppInstallationID\<close> is; so a
  configuration with app authentication (\<open>AppID > 0\<close>, a private key, no token) and valid
  other fields is accepted with an installation id that is zero or negative, and \<open>run\<close> puts
  that id into the app credentials as it is.
\<close>

theorem AppInstallationID_not_validated:
  "((validateConfig (config\<lparr>AppInstallationID := n\<rparr>) = None) = (validateConfig config = None))
   \<and> (ConfigureUrl config \<noteq> [] \<and> EphemeralRunnerSetNamespace config \<noteq> []
        \<and> EphemeralRunnerSetName config \<noteq> [] \<and> RunnerScaleSetId config \<noteq> 0
        \<and> \<not> MaxRunners config <s MinRunners config
        \<and> Token config = [] \<and> 0 <s AppID config \<and> AppPrivateKey config \<noteq> [] \<and> n \<le>s 0
      \<longrightarrow> validateConfig (config\<lparr>AppInstallationID := n\<rparr>) = None
          \<and> run_creds (config\<lparr>AppInstallationID := n\<rparr>) =
              \<lparr>AppCreds = Some \<lparr>GitHubAppAuth.AppID = AppID config,
                                 GitHubAppAuth.AppInstallationID = n,
                                 GitHubAppAuth.AppPrivateKey = AppPrivateKey config\<rparr>,
               Token = []\<rparr>)"
  by (auto simp: validateConfig_def run_creds_def Let_def split: if_splits)

text \<open>C9 at the installation ids -7 and 0.\<close>

theorem AppInstallationID_not_validated_witness:
  "validateConfig (appConfig\<lparr>AppInstallationID := - 7\<rparr>) = None
   \<and> run_creds (appConfig\<lparr>AppInstallationID := - 7\<rparr>) =
       \<lparr>AppCreds = Some \<lparr>GitHubAppAuth.AppID = 12, GitHubAppAuth.AppInstallationID = - 7,
                          GitHubAppAuth.AppPrivateKey = ''key''\<rparr>,
        Token = []\<rparr>
   \<and> validateConfig (appConfig\<lparr>AppInstallationID := 0\<rparr>) = None"
proof -
  note t = AppInstallationID_not_validated
  have a: "ConfigureUrl appConfig \<noteq> []" "EphemeralRunnerSetNamespace appConfig \<noteq> []"
    "EphemeralRunnerSetName appConfig \<noteq> []" "RunnerScaleSetId appConfig \<noteq> 0"
    "\<not> MaxRunners appConfig <s MinRunners appConfig"
    "Token appConfig = []" "0 <s AppID appConfig" "AppPrivateKey appConfig \<noteq> []"
    by (simp_all add: appConfig_def exampleConfig_def word_sless_alt)
  have f: "AppID appConfig = 12" "AppPrivateKey appConfig = ''key''"
    by (simp_all add: appConfig_def)
  have n: "(- 7 :: int64) \<le>s 0" "(0 :: int64) \<le>s 0"
    by (simp_all add: word_sle_eq)
  from t [where config = appConfig and n = "- 7"] a n f
  have 1: "validateConfig (appConfig\<lparr>AppInstallationID := - 7\<rparr>) = None
   \<and> run_creds (appConfig\<lparr>AppInstallationID := - 7\<rparr>) =
       \<lparr>AppCreds = Some \<lparr>GitHubAppAuth.AppID = 12, GitHubAppAuth.AppInstallationID = - 7,
                          GitHubAppAuth.AppPrivateKey = ''key''\<rparr>,
        Token = []\<rparr>" by simp
  from t [where config = appConfig and n = 0] a n
  have 2: "validateConfig (appConfig\<lparr>AppInstallationID := 0\<rparr>) = None" by simp
  from 1 2 show ?thesis by simp
qed

subsection \<open>C10: a negative scale-set id\<close>



end
